theory Spec2Isabelle
  imports Main
begin

section \<open>Strings\<close>

text \<open>
  JavaScript strings are modelled as \<open>string\<close> (lists of bytes); all literals of the
  sources are ASCII.  \<open>startsWith\<close> and \<open>includes\<close> are \<open>String.prototype.startsWith\<close>
  and \<open>String.prototype.includes\<close>.
\<close>

fun startsWith :: "string \<Rightarrow> string \<Rightarrow> bool" where
  "startsWith s [] = True"
| "startsWith [] (c # cs) = False"
| "startsWith (x # xs) (c # cs) = (x = c \<and> startsWith xs cs)"

fun str_includes :: "string \<Rightarrow> string \<Rightarrow> bool" where
  "str_includes [] sub = (sub = [])"
| "str_includes (x # xs) sub = (startsWith (x # xs) sub \<or> str_includes xs sub)"

text \<open>\<open>Array.prototype.join(' ')\<close> on strings.\<close>

fun join_space :: "string list \<Rightarrow> string" where
  "join_space [] = []"
| "join_space [s] = s"
| "join_space (s # t # ss) = s @ '' '' @ join_space (t # ss)"


section \<open>The iframe integration script (public/iframe-integration.js)\<close>

subsection \<open>Data\<close>

text \<open>
  A field of a message object: \<open>undefined\<close> or a string.  A value is truthy when it is a
  non-empty string.
\<close>

datatype js_val = Undefined | JStr string

fun truthy :: "js_val \<Rightarrow> bool" where
  "truthy Undefined = False"
| "truthy (JStr s) = (s \<noteq> [])"

fun val_to_string :: "js_val \<Rightarrow> string" where
  "val_to_string Undefined = []"
| "val_to_string (JStr s) = s"

text \<open>
  The fields the script reads from \<open>event.data\<close>: \<open>type\<close>, and the fields destructured by
  \<open>handleIrcLogin\<close> and \<open>handleThemeChange\<close>.
\<close>

record msg_obj =
  m_type :: js_val
  m_nick :: js_val
  m_password :: js_val
  m_realname :: js_val
  m_channels :: js_val
  m_theme :: js_val

text \<open>\<open>event.data\<close>: \<open>null\<close>/\<open>undefined\<close>, a string, or an object.\<close>

datatype msg_data = DNull | DStr string | DObj msg_obj

record message_event =
  origin :: string
  data :: msg_data

text \<open>An argument of \<open>console.log\<close> / \<open>console.warn\<close>, and its string form under \<open>join\<close>.\<close>

datatype log_arg = AStr string | AVal js_val | AData msg_data

fun arg_to_string :: "log_arg \<Rightarrow> string" where
  "arg_to_string (AStr s) = s"
| "arg_to_string (AVal v) = val_to_string v"
| "arg_to_string (AData DNull) = []"
| "arg_to_string (AData (DStr s)) = s"
| "arg_to_string (AData (DObj obj)) = ''[object Object]''"

datatype console_entry = Log "log_arg list" | Warn "log_arg list"

text \<open>The payload and the envelope of a message posted to the parent window.\<close>

datatype post_data = PMessage string | PReady string string

record parent_post =
  p_type :: string
  p_eventType :: string
  p_data :: post_data
  p_targetOrigin :: string

text \<open>
  The part of the document the script touches: the three inputs (\<open>None\<close> when
  \<open>querySelector\<close> finds nothing, otherwise the input's value), whether \<open>form.connect\<close>
  exists, and how often the form has been submitted.
\<close>

record dom =
  nickInput :: "string option"
  passwordInput :: "string option"
  realnameInput :: "string option"
  connectForm :: bool
  submits :: nat

text \<open>
  Pending timers.  A callback is one of the four closures the script hands to
  \<open>setInterval\<close> / \<open>setTimeout\<close>; \<open>WaitForForm\<close> carries the \<open>nick\<close>, \<open>password\<close> and
  \<open>realname\<close> it closes over, \<open>ClearWait\<close> the interval it clears.
\<close>

datatype callback =
    WaitForForm js_val js_val js_val
  | ClearWait nat
  | SubmitForm
  | SendReady

record timer =
  t_id :: nat
  t_delay :: nat
  t_repeat :: bool
  t_cb :: callback

text \<open>Calls of the two inbound handlers, recorded as they are entered.\<close>

datatype call = HandleIrcLogin msg_obj | HandleThemeChange msg_obj

record window =
  self_is_top :: bool
  has_parent :: bool
  readyState_loading :: bool
  location_href :: string
  userAgent :: string
  document :: dom
  message_listener :: bool
  domcontentloaded_listener :: bool
  log_patched :: bool
  timers :: "timer list"
  next_timer :: nat
  console :: "console_entry list"
  posted :: "parent_post list"
  calls :: "call list"

subsection \<open>Outbound: notifyParent and the patched console.log\<close>

definition notifyParent :: "string \<Rightarrow> post_data \<Rightarrow> window \<Rightarrow> window" where
  "notifyParent eventType d w =
     (if has_parent w
      then w\<lparr>posted := posted w @
             [\<lparr>p_type = ''irc-event'', p_eventType = eventType, p_data = d,
               p_targetOrigin = ''*''\<rparr>]\<rparr>
      else w)"

text \<open>
  The replacement that \<open>setupConnectionMonitoring\<close> installs for \<open>console.log\<close>, and
  \<open>console.log\<close> itself: the original when not patched.
\<close>

definition patched_log :: "log_arg list \<Rightarrow> window \<Rightarrow> window" where
  "patched_log args w =
     (let message = join_space (map arg_to_string args);
          w1 = (if str_includes message ''Connected to''
                then notifyParent ''connected'' (PMessage message) w
                else if str_includes message ''Disconnected from''
                then notifyParent ''disconnected'' (PMessage message) w
                else if str_includes message ''Joined channel''
                then notifyParent ''joined'' (PMessage message) w
                else w)
      in w1\<lparr>console := console w1 @ [Log args]\<rparr>)"

definition console_log :: "log_arg list \<Rightarrow> window \<Rightarrow> window" where
  "console_log args w =
     (if log_patched w then patched_log args w
      else w\<lparr>console := console w @ [Log args]\<rparr>)"

definition console_warn :: "log_arg list \<Rightarrow> window \<Rightarrow> window" where
  "console_warn args w = w\<lparr>console := console w @ [Warn args]\<rparr>"

definition setupConnectionMonitoring :: "window \<Rightarrow> window" where
  "setupConnectionMonitoring w = w\<lparr>log_patched := True\<rparr>"

subsection \<open>Timers\<close>

definition set_timer :: "bool \<Rightarrow> callback \<Rightarrow> nat \<Rightarrow> window \<Rightarrow> nat \<times> window" where
  "set_timer rep cb delay w =
     (next_timer w,
      w\<lparr>timers := timers w @ [\<lparr>t_id = next_timer w, t_delay = delay, t_repeat = rep, t_cb = cb\<rparr>],
        next_timer := Suc (next_timer w)\<rparr>)"

definition setInterval :: "callback \<Rightarrow> nat \<Rightarrow> window \<Rightarrow> nat \<times> window" where
  "setInterval = set_timer True"

definition setTimeout :: "callback \<Rightarrow> nat \<Rightarrow> window \<Rightarrow> nat \<times> window" where
  "setTimeout = set_timer False"

definition clearInterval :: "nat \<Rightarrow> window \<Rightarrow> window" where
  "clearInterval i w = w\<lparr>timers := filter (\<lambda>t. t_id t \<noteq> i) (timers w)\<rparr>"

subsection \<open>Inbound: the message listener and its handlers\<close>

definition allowedOrigins :: "string list" where
  "allowedOrigins =
     [''https://curia.network'',
      ''https://www.curia.network'',
      ''http://localhost:3000'',
      ''http://localhost:3001'']"

definition handleIrcLogin :: "msg_obj \<Rightarrow> window \<Rightarrow> window" where
  "handleIrcLogin obj w =
     (let w0 = w\<lparr>calls := calls w @ [HandleIrcLogin obj]\<rparr>;
          w1 = console_log [AStr ''Attempting IRC login for user:'', AVal (m_nick obj)] w0;
          (waitForForm, w2) =
             setInterval (WaitForForm (m_nick obj) (m_password obj) (m_realname obj)) 100 w1;
          (_, w3) = setTimeout (ClearWait waitForForm) 10000 w2
      in w3)"

definition handleThemeChange :: "msg_obj \<Rightarrow> window \<Rightarrow> window" where
  "handleThemeChange obj w =
     (let w0 = w\<lparr>calls := calls w @ [HandleThemeChange obj]\<rparr>
      in if truthy (m_theme obj)
         then console_log [AStr ''Applying theme:'', AVal (m_theme obj)] w0
         else w0)"

definition on_message :: "message_event \<Rightarrow> window \<Rightarrow> window" where
  "on_message event w =
     (if origin event \<notin> set allowedOrigins
      then console_warn [AStr ''Ignored message from unauthorized origin:'',
                         AStr (origin event)] w
      else
        let w1 = console_log [AStr ''Received message from parent:'', AData (data event)] w
        in (case data event of
              DObj obj \<Rightarrow>
                if m_type obj = JStr ''irc-login'' then handleIrcLogin obj w1
                else if m_type obj = JStr ''irc-theme'' then handleThemeChange obj w1
                else w1
            | _ \<Rightarrow> w1))"

text \<open>The body of the interval callback of \<open>handleIrcLogin\<close>; \<open>i\<close> is the interval's own id.\<close>

definition wait_for_form_tick :: "nat \<Rightarrow> js_val \<Rightarrow> js_val \<Rightarrow> js_val \<Rightarrow> window \<Rightarrow> window" where
  "wait_for_form_tick i nick password realname w =
     (let d = document w in
      if nickInput d \<noteq> None \<and> passwordInput d \<noteq> None \<and> connectForm d
      then
        let w1 = clearInterval i w;
            d1 = (if truthy nick then d\<lparr>nickInput := Some (val_to_string nick)\<rparr> else d);
            d2 = (if truthy password then d1\<lparr>passwordInput := Some (val_to_string password)\<rparr>
                  else d1);
            d3 = (if truthy realname \<and> realnameInput d2 \<noteq> None
                  then d2\<lparr>realnameInput := Some (val_to_string realname)\<rparr> else d2);
            (_, w2) = setTimeout SubmitForm 100 (w1\<lparr>document := d3\<rparr>)
        in w2
      else w)"

definition submit_form :: "window \<Rightarrow> window" where
  "submit_form w =
     (let w1 = console_log [AStr ''Submitting IRC connection form''] w
      in w1\<lparr>document := (document w1)\<lparr>submits := Suc (submits (document w1))\<rparr>\<rparr>)"

definition send_ready :: "window \<Rightarrow> window" where
  "send_ready w = notifyParent ''ready'' (PReady (location_href w) (userAgent w)) w"

fun run_callback :: "nat \<Rightarrow> callback \<Rightarrow> window \<Rightarrow> window" where
  "run_callback i (WaitForForm nick password realname) w =
     wait_for_form_tick i nick password realname w"
| "run_callback i (ClearWait j) w = clearInterval j w"
| "run_callback i SubmitForm w = submit_form w"
| "run_callback i SendReady w = send_ready w"

subsection \<open>Loading the script, and the events the browser delivers to it\<close>

definition load_script :: "window \<Rightarrow> window" where
  "load_script w =
     (if self_is_top w then w
      else
        let w1 = console_log [AStr ''CommonGround IRC integration loaded''] w;
            w2 = w1\<lparr>message_listener := True\<rparr>;
            w3 = (if readyState_loading w2 then w2\<lparr>domcontentloaded_listener := True\<rparr>
                  else setupConnectionMonitoring w2);
            (_, w4) = setTimeout SendReady 1000 w3
        in w4)"

text \<open>
  What can happen after the script was loaded: a message arrives, a pending timer fires,
  the document finishes loading, the page around the script (The Lounge) logs to the
  console or redraws the form.
\<close>

datatype event =
    Message message_event
  | TimerFires nat
  | DOMContentLoaded
  | PageLogs "log_arg list"
  | PageRenders dom

fun step :: "window \<Rightarrow> event \<Rightarrow> window" where
  "step w (Message ev) = (if message_listener w then on_message ev w else w)"
| "step w (TimerFires i) =
     (case find (\<lambda>t. t_id t = i) (timers w) of
        None \<Rightarrow> w
      | Some t \<Rightarrow>
          run_callback i (t_cb t)
            (if t_repeat t then w else w\<lparr>timers := filter (\<lambda>t. t_id t \<noteq> i) (timers w)\<rparr>))"
| "step w DOMContentLoaded =
     (if readyState_loading w
      then (let w1 = w\<lparr>readyState_loading := False\<rparr>
            in if domcontentloaded_listener w1 then setupConnectionMonitoring w1 else w1)
      else w)"
| "step w (PageLogs args) = console_log args w"
| "step w (PageRenders d) = w\<lparr>document := d\<rparr>"

fun run :: "window \<Rightarrow> event list \<Rightarrow> window" where
  "run w [] = w"
| "run w (e # es) = run (step w e) es"


subsection \<open>What the script may post\<close>

definition irc_event_post :: "parent_post \<Rightarrow> bool" where
  "irc_event_post p = (p_type p = ''irc-event'' \<and> p_targetOrigin p = ''*'')"

text \<open>\<open>posts_more w w'\<close>: from \<open>w\<close> to \<open>w'\<close> only \<open>irc-event\<close> messages to \<open>'*'\<close> were posted.\<close>

definition posts_more :: "window \<Rightarrow> window \<Rightarrow> bool" where
  "posts_more w w' = (\<exists>ps. posted w' = posted w @ ps \<and> list_all irc_event_post ps)"


section \<open>The identity bridge (docs)\<close>

text \<open>
  The provisioning endpoint exists in two drafts: the endpoint specification
  (\<open>route.ts\<close> with \<open>utils/irc-auth.ts\<close>) and the earlier auth-bridge notes (\<open>POST\<close> with
  \<open>lib/irc-db.ts\<close>).  Both write to the bouncer's (Soju's) \<open>User\<close> and \<open>Network\<close> tables.
  The implementation plan adds the auth callback \<open>/api/irc-auth\<close> over its own \<open>irc_users\<close>
  table, and \<open>buildChatUrl\<close>.
\<close>

subsection \<open>utils/irc-auth.ts\<close>

definition is_alnum :: "char \<Rightarrow> bool" where
  "is_alnum c =
     (let n = (of_char c :: nat)
      in (48 \<le> n \<and> n \<le> 57) \<or> (65 \<le> n \<and> n \<le> 90) \<or> (97 \<le> n \<and> n \<le> 122))"

definition to_lower :: "char \<Rightarrow> char" where
  "to_lower c = (let n = (of_char c :: nat) in if 65 \<le> n \<and> n \<le> 90 then char_of (n + 32) else c)"

definition toLowerCase :: "string \<Rightarrow> string" where
  "toLowerCase s = map to_lower s"

text \<open>\<open>s.slice(-n)\<close>: the last \<open>n\<close> characters, the whole string when it is shorter.\<close>

definition slice_last :: "nat \<Rightarrow> string \<Rightarrow> string" where
  "slice_last n s = drop (length s - n) s"

definition generateIrcUsername :: "string \<Rightarrow> string \<Rightarrow> string" where
  "generateIrcUsername name userId =
     (let cleanName = toLowerCase (filter is_alnum name);
          userSuffix = slice_last 4 userId
      in take 32 (cleanName @ ''_'' @ userSuffix))"

text \<open>
  What the code takes from its runtime: the results of successive evaluations of
  \<open>Math.random().toString(36).slice(2)\<close>, the salts \<open>bcrypt.hash(_, 10)\<close> draws, bcrypt
  itself, and \<open>verifyPassword\<close>, which the sources call but do not define.
\<close>

record runtime =
  random36 :: "nat \<Rightarrow> string"
  genSalt :: "nat \<Rightarrow> string"
  bcrypt_hash :: "string \<Rightarrow> string \<Rightarrow> string"
  verifyPassword :: "string \<Rightarrow> string \<Rightarrow> bool"

subsection \<open>The Soju database\<close>

record soju_user =
  u_id :: nat
  u_username :: string
  u_password :: string
  u_nick :: string
  u_realname :: string
  u_admin :: bool
  u_enabled :: bool

record soju_network =
  n_name :: string
  n_user :: nat
  n_addr :: string
  n_nick :: string
  n_username :: string
  n_enabled :: bool

record soju_db =
  db_up :: bool
  users :: "soju_user list"
  networks :: "soju_network list"
  user_serial :: nat

datatype db_error = ConnectionError | UniqueViolation | ValueTooLong | ClientAlreadyConnected

text \<open>
  Every text column of \<open>User\<close> and \<open>Network\<close> is \<open>VARCHAR(255)\<close>: a statement that would
  store a longer value fails.
\<close>

definition fits_varchar :: "string \<Rightarrow> bool" where
  "fits_varchar s = (length s \<le> 255)"

text \<open>
  The SQL statements of the two drafts.  Each goes through \<open>ircQuery\<close> (or \<open>ircDb.query\<close>)
  and throws when the database cannot be reached; \<open>username\<close> is \<open>UNIQUE\<close>.  A failed
  statement changes no row; the value it took from the \<open>SERIAL\<close> sequence is not given
  back.
\<close>

definition select_user_ids :: "string \<Rightarrow> soju_db \<Rightarrow> (db_error + nat list) \<times> soju_db" where
  "select_user_ids username db =
     (if \<not> db_up db then (Inl ConnectionError, db)
      else (Inr (map u_id (filter (\<lambda>u. u_username u = username) (users db))), db))"

definition update_user_by_id ::
  "nat \<Rightarrow> string \<Rightarrow> string \<Rightarrow> string \<Rightarrow> soju_db \<Rightarrow> (db_error + unit) \<times> soju_db" where
  "update_user_by_id i password nick realname db =
     (if \<not> db_up db then (Inl ConnectionError, db)
      else if \<not> (fits_varchar password \<and> fits_varchar nick \<and> fits_varchar realname)
      then (Inl ValueTooLong, db)
      else (Inr (),
            db\<lparr>users := map (\<lambda>u. if u_id u = i
                                  then u\<lparr>u_password := password, u_nick := nick, u_realname := realname\<rparr>
                                  else u) (users db)\<rparr>))"

definition update_user_by_username ::
  "string \<Rightarrow> string \<Rightarrow> string \<Rightarrow> string \<Rightarrow> soju_db \<Rightarrow> (db_error + unit) \<times> soju_db" where
  "update_user_by_username username password nick realname db =
     (if \<not> db_up db then (Inl ConnectionError, db)
      else if \<not> (fits_varchar password \<and> fits_varchar nick \<and> fits_varchar realname)
      then (Inl ValueTooLong, db)
      else (Inr (),
            db\<lparr>users := map (\<lambda>u. if u_username u = username
                                  then u\<lparr>u_password := password, u_nick := nick, u_realname := realname\<rparr>
                                  else u) (users db)\<rparr>))"

definition insert_user ::
  "string \<Rightarrow> string \<Rightarrow> string \<Rightarrow> string \<Rightarrow> soju_db \<Rightarrow> (db_error + nat) \<times> soju_db" where
  "insert_user username password nick realname db =
     (if \<not> db_up db then (Inl ConnectionError, db)
      else if \<not> (fits_varchar username \<and> fits_varchar password \<and> fits_varchar nick
                  \<and> fits_varchar realname)
      then (Inl ValueTooLong, db\<lparr>user_serial := Suc (user_serial db)\<rparr>)
      else if username \<in> set (map u_username (users db))
      then (Inl UniqueViolation, db\<lparr>user_serial := Suc (user_serial db)\<rparr>)
      else (Inr (user_serial db),
            db\<lparr>users := users db @
                   [\<lparr>u_id = user_serial db, u_username = username, u_password = password,
                     u_nick = nick, u_realname = realname, u_admin = False, u_enabled = True\<rparr>],
               user_serial := Suc (user_serial db)\<rparr>))"

text \<open>\<open>INSERT INTO "Network" ... ON CONFLICT (name, "user") DO UPDATE SET nick, username\<close>.\<close>

definition upsert_network ::
  "string \<Rightarrow> nat \<Rightarrow> string \<Rightarrow> string \<Rightarrow> string \<Rightarrow> soju_db \<Rightarrow> (db_error + unit) \<times> soju_db" where
  "upsert_network name user addr nick username db =
     (if \<not> db_up db then (Inl ConnectionError, db)
      else if \<not> (fits_varchar name \<and> fits_varchar addr \<and> fits_varchar nick
                  \<and> fits_varchar username)
      then (Inl ValueTooLong, db)
      else if list_ex (\<lambda>n. n_name n = name \<and> n_user n = user) (networks db)
      then (Inr (),
            db\<lparr>networks := map (\<lambda>n. if n_name n = name \<and> n_user n = user
                                     then n\<lparr>n_nick := nick, n_username := username\<rparr> else n)
                                (networks db)\<rparr>)
      else (Inr (),
            db\<lparr>networks := networks db @
                   [\<lparr>n_name = name, n_user = user, n_addr = addr, n_nick = nick,
                     n_username = username, n_enabled = True\<rparr>]\<rparr>))"

text \<open>\<open>INSERT INTO "Network" ... ON CONFLICT DO NOTHING\<close>.\<close>

definition insert_network_if_absent ::
  "string \<Rightarrow> nat \<Rightarrow> string \<Rightarrow> string \<Rightarrow> string \<Rightarrow> soju_db \<Rightarrow> (db_error + unit) \<times> soju_db" where
  "insert_network_if_absent name user addr nick username db =
     (if \<not> db_up db then (Inl ConnectionError, db)
      else if \<not> (fits_varchar name \<and> fits_varchar addr \<and> fits_varchar nick
                  \<and> fits_varchar username)
      then (Inl ValueTooLong, db)
      else if list_ex (\<lambda>n. n_name n = name \<and> n_user n = user) (networks db)
      then (Inr (), db)
      else (Inr (),
            db\<lparr>networks := networks db @
                   [\<lparr>n_name = name, n_user = user, n_addr = addr, n_nick = nick,
                     n_username = username, n_enabled = True\<rparr>]\<rparr>))"


subsection \<open>Requests, responses and the server state\<close>

text \<open>
  \<open>req.user\<close> (the JWT claims \<open>sub\<close>, \<open>name\<close>) in the endpoint specification, the session
  (\<open>id\<close>, \<open>name\<close>) in the auth-bridge notes; \<open>None\<close> when the caller is not authenticated.
  The body is \<open>None\<close> when \<open>req.json()\<close> throws.
\<close>

record auth_user =
  sub :: string
  name :: js_val

record provision_request =
  req_user :: "auth_user option"
  req_body_communityId :: "js_val option"

datatype json_body =
    JError string
  | JProvision string string string
  | JSuccess

record response =
  status :: nat
  body :: json_body

text \<open>
  \<open>ircDb_used\<close>: whether the module-level \<open>Client\<close> of \<open>lib/irc-db.ts\<close> has been connected in
  this process.
\<close>

record server =
  soju :: soju_db
  ircDb_used :: bool
  random_calls :: nat
  salt_calls :: nat
  error_log :: "string list"

definition generateSecurePassword :: "runtime \<Rightarrow> server \<Rightarrow> string \<times> server" where
  "generateSecurePassword rt srv =
     (random36 rt (random_calls srv) @ random36 rt (Suc (random_calls srv)),
      srv\<lparr>random_calls := Suc (Suc (random_calls srv))\<rparr>)"

definition hashIrcPassword :: "runtime \<Rightarrow> string \<Rightarrow> server \<Rightarrow> string \<times> server" where
  "hashIrcPassword rt password srv =
     (bcrypt_hash rt password (genSalt rt (salt_calls srv)),
      srv\<lparr>salt_calls := Suc (salt_calls srv)\<rparr>)"

subsection \<open>Endpoint specification: route.ts\<close>

record upsert_args =
  up_curiaUserId :: string
  up_ircUsername :: string
  up_hashedPassword :: string
  up_nickname :: string
  up_realname :: string
  up_communityId :: string

definition upsertSojuUser :: "upsert_args \<Rightarrow> soju_db \<Rightarrow> (db_error + nat \<times> string) \<times> soju_db" where
  "upsertSojuUser a db =
     (case select_user_ids (up_ircUsername a) db of
        (Inl e, db1) \<Rightarrow> (Inl e, db1)
      | (Inr existingUser, db1) \<Rightarrow>
          (case (case existingUser of
                   i # _ \<Rightarrow>
                     (case update_user_by_id i (up_hashedPassword a) (up_nickname a) (up_realname a) db1 of
                        (Inl e, db2) \<Rightarrow> (Inl e, db2)
                      | (Inr _, db2) \<Rightarrow> (Inr i, db2))
                 | [] \<Rightarrow>
                     insert_user (up_ircUsername a) (up_hashedPassword a) (up_nickname a) (up_realname a) db1)
           of
             (Inl e, db2) \<Rightarrow> (Inl e, db2)
           | (Inr userId, db2) \<Rightarrow>
               (case upsert_network ''commonground'' userId ''irc+insecure://ergo:6667''
                       (up_nickname a) (up_ircUsername a) db2 of
                  (Inl e, db3) \<Rightarrow> (Inl e, db3)
                | (Inr _, db3) \<Rightarrow> (Inr (userId, up_ircUsername a), db3))))"

text \<open>\<open>user.name || user.sub\<close> and \<open>user.name || ircUsername\<close>.\<close>

definition or_else :: "js_val \<Rightarrow> string \<Rightarrow> string" where
  "or_else v s = (if truthy v then val_to_string v else s)"

definition provisionIrcUserHandler ::
  "runtime \<Rightarrow> provision_request \<Rightarrow> server \<Rightarrow> response \<times> server" where
  "provisionIrcUserHandler rt req srv =
     (case req_user req of
        None \<Rightarrow> (\<lparr>status = 401, body = JError ''User not found''\<rparr>, srv)
      | Some user \<Rightarrow>
          (case req_body_communityId req of
             None \<Rightarrow>
               (\<lparr>status = 500, body = JError ''Failed to provision IRC user''\<rparr>,
                srv\<lparr>error_log := error_log srv @ [''[IRC Provision] Error:'']\<rparr>)
           | Some cid \<Rightarrow>
               if \<not> truthy cid
               then (\<lparr>status = 400, body = JError ''communityId is required''\<rparr>, srv)
               else
                 let ircUsername = generateIrcUsername (or_else (name user) (sub user)) (sub user);
                     (ircPassword, srv1) = generateSecurePassword rt srv;
                     (hashedPassword, srv2) = hashIrcPassword rt ircPassword srv1
                 in (case upsertSojuUser
                            \<lparr>up_curiaUserId = sub user, up_ircUsername = ircUsername,
                             up_hashedPassword = hashedPassword,
                             up_nickname = or_else (name user) ircUsername,
                             up_realname = or_else (name user) ircUsername,
                             up_communityId = val_to_string cid\<rparr> (soju srv2) of
                       (Inl e, db') \<Rightarrow>
                         (\<lparr>status = 500, body = JError ''Failed to provision IRC user''\<rparr>,
                          srv2\<lparr>soju := db', error_log := error_log srv2 @ [''[IRC Provision] Error:'']\<rparr>)
                     | (Inr ircUser, db') \<Rightarrow>
                         (\<lparr>status = 200, body = JProvision ircUsername ircPassword ''commonground''\<rparr>,
                          srv2\<lparr>soju := db'\<rparr>))))"

subsection \<open>Auth-bridge notes: POST and lib/irc-db.ts\<close>

record irc_db_args =
  a_curiaUserId :: string
  a_ircUsername :: string
  a_ircPassword :: string
  a_nickname :: string
  a_realname :: string
  a_communityId :: string

text \<open>
  \<open>upsertSojuUser\<close> of \<open>lib/irc-db.ts\<close>.  It connects the one module-level \<open>Client\<close> at its
  start and ends it in \<open>finally\<close>; a \<open>Client\<close> cannot be connected a second time, so every
  call after the first one in a process throws at \<open>ircDb.connect()\<close>.  The function takes
  and returns whether the client has been used, beside the database.
\<close>

definition upsertSojuUser_irc_db ::
  "irc_db_args \<Rightarrow> bool \<times> soju_db \<Rightarrow> (db_error + nat) \<times> bool \<times> soju_db" where
  "upsertSojuUser_irc_db a st =
     (case st of (used, db) \<Rightarrow>
      if used then (Inl ClientAlreadyConnected, True, db)
      else if \<not> db_up db then (Inl ConnectionError, True, db)
      else
        case select_user_ids (a_ircUsername a) db of
          (Inl e, db1) \<Rightarrow> (Inl e, True, db1)
        | (Inr existingUser, db1) \<Rightarrow>
            (case existingUser of
               i # _ \<Rightarrow>
                 (case update_user_by_username (a_ircUsername a) (a_ircPassword a)
                         (a_nickname a) (a_realname a) db1 of
                    (Inl e, db2) \<Rightarrow> (Inl e, True, db2)
                  | (Inr _, db2) \<Rightarrow> (Inr i, True, db2))
             | [] \<Rightarrow>
                 (case insert_user (a_ircUsername a) (a_ircPassword a)
                         (a_nickname a) (a_realname a) db1 of
                    (Inl e, db2) \<Rightarrow> (Inl e, True, db2)
                  | (Inr newUser, db2) \<Rightarrow>
                      (case insert_network_if_absent ''commonground'' newUser
                              ''irc+insecure://ergo:6667'' (a_nickname a) (a_ircUsername a) db2 of
                         (Inl e, db3) \<Rightarrow> (Inl e, True, db3)
                       | (Inr _, db3) \<Rightarrow> (Inr newUser, True, db3)))))"

text \<open>
  \<open>POST\<close>: the whole body is inside \<open>try\<close>.  The password is generated before the
  username; \<open>generateIrcUsername(session.name, session.id)\<close> throws on an undefined name
  (\<open>name.replace\<close>), and \<open>nickname\<close>/\<open>realname\<close> are \<open>session.name\<close>.  The password
  handed to \<open>upsertSojuUser\<close> is \<open>ircPassword\<close> itself.
\<close>

definition POST :: "runtime \<Rightarrow> provision_request \<Rightarrow> server \<Rightarrow> response \<times> server" where
  "POST rt req srv =
     (case req_user req of
        None \<Rightarrow> (\<lparr>status = 401, body = JError ''Unauthorized''\<rparr>, srv)
      | Some session \<Rightarrow>
          (case req_body_communityId req of
             None \<Rightarrow>
               (\<lparr>status = 500, body = JError ''Provisioning failed''\<rparr>,
                srv\<lparr>error_log := error_log srv @ [''IRC user provisioning failed:'']\<rparr>)
           | Some cid \<Rightarrow>
               let (ircPassword, srv1) = generateSecurePassword rt srv
               in (case name session of
                     Undefined \<Rightarrow>
                       (\<lparr>status = 500, body = JError ''Provisioning failed''\<rparr>,
                        srv1\<lparr>error_log := error_log srv1 @ [''IRC user provisioning failed:'']\<rparr>)
                   | JStr session_name \<Rightarrow>
                       let ircUsername = generateIrcUsername session_name (sub session)
                       in (case upsertSojuUser_irc_db
                                  \<lparr>a_curiaUserId = sub session, a_ircUsername = ircUsername,
                                   a_ircPassword = ircPassword, a_nickname = session_name,
                                   a_realname = session_name,
                                   a_communityId = val_to_string cid\<rparr>
                                  (ircDb_used srv1, soju srv1) of
                             (Inl e, used', db') \<Rightarrow>
                               (\<lparr>status = 500, body = JError ''Provisioning failed''\<rparr>,
                                srv1\<lparr>soju := db', ircDb_used := used',
                                     error_log := error_log srv1 @ [''IRC user provisioning failed:'']\<rparr>)
                           | (Inr ircUser, used', db') \<Rightarrow>
                               (\<lparr>status = 200,
                                 body = JProvision ircUsername ircPassword ''commonground''\<rparr>,
                                srv1\<lparr>soju := db', ircDb_used := used'\<rparr>)))))"

subsection \<open>Implementation plan: /api/irc-auth\<close>

text \<open>The \<open>irc_users\<close> table of the plan's schema.\<close>

record irc_user =
  i_id :: nat
  cg_user_id :: string
  irc_username :: string
  ircPasswordHash :: string
  irc_realname :: string
  created_at :: nat
  last_used_at :: nat

text \<open>
  Modelled from the spec: \<open>findIrcUserByUsername\<close>, which the handler calls and the sources
  do not define.  It fetches the row stored for the username (\<open>irc_username\<close> is \<open>UNIQUE\<close>
  in the schema).
\<close>

definition findIrcUserByUsername :: "string \<Rightarrow> irc_user list \<Rightarrow> irc_user option" where
  "findIrcUserByUsername username tbl = find (\<lambda>u. irc_username u = username) tbl"

text \<open>
  Modelled from the spec: \<open>updateIrcUserLastUsed\<close>, which the handler calls and the sources
  do not define.  It sets \<open>last_used_at\<close> of the row with the given \<open>id\<close> to the current time.
\<close>

definition updateIrcUserLastUsed :: "nat \<Rightarrow> nat \<Rightarrow> irc_user list \<Rightarrow> irc_user list" where
  "updateIrcUserLastUsed now i tbl =
     map (\<lambda>u. if i_id u = i then u\<lparr>last_used_at := now\<rparr> else u) tbl"

text \<open>The helper calls the handler makes, in order.\<close>

datatype auth_call =
    FindIrcUserByUsername string
  | VerifyPassword string string
  | UpdateIrcUserLastUsed nat

text \<open>
  The handler after \<open>parseBasicAuth\<close>: its input is the \<open>(username, password)\<close> pair.  It
  returns the response, the table and the calls it made.
\<close>

definition irc_auth_handler ::
  "runtime \<Rightarrow> nat \<Rightarrow> string \<Rightarrow> string \<Rightarrow> irc_user list
     \<Rightarrow> response \<times> irc_user list \<times> auth_call list" where
  "irc_auth_handler rt now username password tbl =
     (case findIrcUserByUsername username tbl of
        None \<Rightarrow>
          (\<lparr>status = 403, body = JError ''User not found''\<rparr>, tbl,
           [FindIrcUserByUsername username])
      | Some ircUser \<Rightarrow>
          if \<not> verifyPassword rt password (ircPasswordHash ircUser)
          then (\<lparr>status = 403, body = JError ''Invalid password''\<rparr>, tbl,
                [FindIrcUserByUsername username,
                 VerifyPassword password (ircPasswordHash ircUser)])
          else (\<lparr>status = 200, body = JSuccess\<rparr>,
                updateIrcUserLastUsed now (i_id ircUser) tbl,
                [FindIrcUserByUsername username,
                 VerifyPassword password (ircPasswordHash ircUser),
                 UpdateIrcUserLastUsed (i_id ircUser)]))"

subsection \<open>The redirect builders\<close>

text \<open>
  A parsed \<open>URL\<close>: everything before the query, the list behind \<open>searchParams\<close>, and the
  fragment (with its \<open>#\<close>, or empty).
\<close>

record url =
  before_query :: string
  searchParams :: "(string \<times> string) list"
  fragment :: string

text \<open>
  \<open>URLSearchParams.set\<close>: the first pair of that name takes the value and the others of
  that name go; without one the pair is appended.
\<close>

fun searchParams_set :: "string \<Rightarrow> string \<Rightarrow> (string \<times> string) list \<Rightarrow> (string \<times> string) list" where
  "searchParams_set n v [] = [(n, v)]"
| "searchParams_set n v ((k, x) # ps) =
     (if k = n then (n, v) # filter (\<lambda>p. fst p \<noteq> n) ps
      else (k, x) # searchParams_set n v ps)"

definition set_param :: "string \<Rightarrow> string \<Rightarrow> url \<Rightarrow> url" where
  "set_param n v u = u\<lparr>searchParams := searchParams_set n v (searchParams u)\<rparr>"

text \<open>
  The \<open>application/x-www-form-urlencoded\<close> serializer: letters, digits and \<open>*-._\<close> stay,
  a space becomes \<open>+\<close>, every other byte \<open>%XX\<close>.
\<close>

definition hex_digit :: "nat \<Rightarrow> char" where
  "hex_digit d = ''0123456789ABCDEF'' ! d"

definition form_encode_char :: "char \<Rightarrow> string" where
  "form_encode_char c =
     (if is_alnum c \<or> c \<in> set ''*-._'' then [c]
      else if c = CHR '' '' then ''+''
      else (let n = (of_char c :: nat) in [CHR ''%'', hex_digit (n div 16), hex_digit (n mod 16)]))"

definition form_encode :: "string \<Rightarrow> string" where
  "form_encode s = concat (map form_encode_char s)"

fun join_with :: "string \<Rightarrow> string list \<Rightarrow> string" where
  "join_with sep [] = []"
| "join_with sep [s] = s"
| "join_with sep (s # t # ss) = s @ sep @ join_with sep (t # ss)"

definition serialize_params :: "(string \<times> string) list \<Rightarrow> string" where
  "serialize_params ps = join_with ''&'' (map (\<lambda>(k, v). form_encode k @ ''='' @ form_encode v) ps)"

definition url_toString :: "url \<Rightarrow> string" where
  "url_toString u =
     before_query u
     @ (if searchParams u = [] then [] else ''?'' @ serialize_params (searchParams u))
     @ fragment u"

record chat_params =
  c_username :: string
  c_password :: string
  c_nick :: string
  c_realname :: string
  c_channels :: "string list"

text \<open>
  \<open>buildChatUrl\<close>.  The first argument is \<open>new URL(process.env.NEXT_PUBLIC_CHAT_BASE_URL)\<close>:
  \<open>None\<close> when the constructor throws.
\<close>

definition buildChatUrl :: "url option \<Rightarrow> chat_params \<Rightarrow> string option" where
  "buildChatUrl base params =
     (case base of
        None \<Rightarrow> None
      | Some url0 \<Rightarrow>
          let url1 = set_param ''autologin'' [] url0;
              url2 = set_param ''user'' (c_username params) url1;
              url3 = set_param ''al-password'' (c_password params) url2;
              url4 = set_param ''autoconnect'' [] url3;
              url5 = set_param ''nick'' (c_nick params) url4;
              url6 = set_param ''username'' (c_username params) url5;
              url7 = set_param ''realname'' (c_realname params) url6;
              url8 = (if length (c_channels params) > 0
                      then set_param ''join'' (join_with '','' (c_channels params)) url7
                      else url7);
              url9 = set_param ''nofocus'' [] url8;
              url10 = set_param ''lockchannel'' [] url9
          in Some (url_toString url10))"

text \<open>\<open>communityId.toLowerCase().replace(/[^a-z0-9]/g, '-')\<close> and \<open>buildLoungeUrl\<close>.\<close>

definition is_lower_alnum :: "char \<Rightarrow> bool" where
  "is_lower_alnum c =
     (let n = (of_char c :: nat) in (48 \<le> n \<and> n \<le> 57) \<or> (97 \<le> n \<and> n \<le> 122))"

definition channel_name :: "string \<Rightarrow> string" where
  "channel_name cid = map (\<lambda>c. if is_lower_alnum c then c else CHR ''-'') (toLowerCase cid)"

definition buildLoungeUrl :: "string \<Rightarrow> string \<Rightarrow> string \<Rightarrow> string" where
  "buildLoungeUrl ircUsername ircPassword cid =
     (let baseUrl = ''http://localhost:9000'';
          channelName = channel_name cid
      in baseUrl @ ''?autologin&user='' @ ircUsername @ ''&al-password='' @ ircPassword
         @ ''&autoconnect&nick='' @ ircUsername @ ''&username='' @ ircUsername
         @ ''/commonground&realname='' @ ircUsername @ ''&join=%23'' @ channelName
         @ ''&lockchannel&nofocus'')"

section \<open>Example inputs\<close>

text \<open>A freshly loaded page inside an iframe, before the script has run.\<close>

definition empty_dom :: dom where
  "empty_dom =
     \<lparr>nickInput = None, passwordInput = None, realnameInput = None, connectForm = False,
      submits = 0\<rparr>"

definition embedded_window :: window where
  "embedded_window =
     \<lparr>self_is_top = False, has_parent = True, readyState_loading = False,
      location_href = ''https://chat.curia.network/'', userAgent = ''Mozilla/5.0'',
      document = empty_dom, message_listener = False, domcontentloaded_listener = False,
      log_patched = False, timers = [], next_timer = 0, console = [], posted = [],
      calls = []\<rparr>"

definition login_alice :: msg_obj where
  "login_alice =
     \<lparr>m_type = JStr ''irc-login'', m_nick = JStr ''alice'', m_password = JStr ''s3cr3t'',
      m_realname = JStr ''Alice A.'', m_channels = Undefined, m_theme = Undefined\<rparr>"

definition evil_login :: message_event where
  "evil_login = \<lparr>origin = ''https://evil.example'', data = DObj login_alice\<rparr>"

section \<open>Observations on the stores\<close>

text \<open>The \<open>password\<close> column of the \<open>User\<close> row with the given username.\<close>

definition stored_password :: "string \<Rightarrow> soju_db \<Rightarrow> string option" where
  "stored_password username db =
     map_option u_password (find (\<lambda>u. u_username u = username) (users db))"

text \<open>The username the endpoint specification derives for a caller, and the secret made of
  the \<open>n\<close>-th and the next draw of \<open>Math.random().toString(36).slice(2)\<close>.\<close>

definition derived_username :: "auth_user \<Rightarrow> string" where
  "derived_username user = generateIrcUsername (or_else (name user) (sub user)) (sub user)"

definition secret_at :: "runtime \<Rightarrow> nat \<Rightarrow> string" where
  "secret_at rt n = random36 rt n @ random36 rt (Suc n)"

text \<open>A request that passes the checks of \<open>provisionIrcUserHandler\<close>.\<close>

definition valid_request :: "provision_request \<Rightarrow> auth_user \<Rightarrow> bool" where
  "valid_request req user =
     (req_user req = Some user \<and>
      (case req_body_communityId req of None \<Rightarrow> False | Some cid \<Rightarrow> truthy cid))"

section \<open>Example runtimes, requests and stores\<close>

text \<open>
  A stand-in for bcrypt with the shape of its output (\<open>$2a$10$\<close>, a 22-character salt,
  then here the password itself), with a random source that does not repeat itself.
\<close>

definition toy_salt :: "nat \<Rightarrow> string" where
  "toy_salt n = replicate 21 CHR ''.'' @ [hex_digit (n mod 16)]"

definition toy_bcrypt_hash :: "string \<Rightarrow> string \<Rightarrow> string" where
  "toy_bcrypt_hash p s = ''$2a$10$'' @ s @ p"

definition toy_verifyPassword :: "string \<Rightarrow> string \<Rightarrow> bool" where
  "toy_verifyPassword p h = (startsWith h ''$2a$10$'' \<and> drop 29 h = p)"

definition rt_fresh :: runtime where
  "rt_fresh =
     \<lparr>random36 = (\<lambda>n. ''k3j2h'' @ [hex_digit (n mod 16)]), genSalt = toy_salt,
      bcrypt_hash = toy_bcrypt_hash, verifyPassword = toy_verifyPassword\<rparr>"

definition srv0 :: server where
  "srv0 =
     \<lparr>soju = \<lparr>db_up = True, users = [], networks = [], user_serial = 1\<rparr>,
      ircDb_used = False, random_calls = 0, salt_calls = 0, error_log = []\<rparr>"

definition bob :: auth_user where
  "bob = \<lparr>sub = ''u-0001'', name = JStr ''Bob''\<rparr>"

definition req_bob :: provision_request where
  "req_bob = \<lparr>req_user = Some bob, req_body_communityId = Some (JStr ''general'')\<rparr>"

text \<open>Another caller: a different id with the same last four characters, and a name that
  cleans to the same letters.\<close>

definition bob2 :: auth_user where
  "bob2 = \<lparr>sub = ''v-0001'', name = JStr ''B.O.B''\<rparr>"

definition req_bob2 :: provision_request where
  "req_bob2 = \<lparr>req_user = Some bob2, req_body_communityId = Some (JStr ''general'')\<rparr>"

definition req_anonymous :: provision_request where
  "req_anonymous = \<lparr>req_user = None, req_body_communityId = Some (JStr ''general'')\<rparr>"

text \<open>The store after \<open>bob\<close> was provisioned once by the endpoint specification's handler.\<close>

definition srv_bob :: server where
  "srv_bob = snd (provisionIrcUserHandler rt_fresh req_bob srv0)"

text \<open>An \<open>irc_users\<close> table with one row, whose hash is that of the password \<open>k3j2h0k3j2h1\<close>.\<close>

definition irc_users0 :: "irc_user list" where
  "irc_users0 =
     [\<lparr>i_id = 1, cg_user_id = ''u-0001'', irc_username = ''bob_0001'',
       ircPasswordHash = ''$2a$10$.....................0k3j2h0k3j2h1'',
       irc_realname = ''Bob'', created_at = 100, last_used_at = 100\<rparr>]"

text \<open>The input of the spec's redirect example, and a base URL without query and fragment.\<close>

definition alice_params :: chat_params where
  "alice_params =
     \<lparr>c_username = ''alice_42'', c_password = ''s3cr3t'', c_nick = ''alice'',
      c_realname = ''Alice A.'', c_channels = [''general'']\<rparr>"

definition chat_base :: url where
  "chat_base = \<lparr>before_query = ''http://localhost:9000/'', searchParams = [], fragment = []\<rparr>"












text \<open>
  The auth-bridge draft after one \<open>POST\<close> for \<open>bob\<close>, and the same database seen by a new
  process, whose \<open>Client\<close> has not been connected yet.
\<close>

definition srv_posted :: server where
  "srv_posted = snd (POST rt_fresh req_bob srv0)"

definition srv_restarted :: server where
  "srv_restarted = srv_posted\<lparr>ircDb_used := False\<rparr>"






section \<open>Properties of the iframe integration script\<close>

subsection \<open>Only irc-event messages to any origin are posted\<close>

lemma posts_more_refl: "posted w' = posted w \<Longrightarrow> posts_more w w'"
  by (simp add: posts_more_def)

lemma posts_more_trans: "posts_more w w' \<Longrightarrow> posts_more w' w'' \<Longrightarrow> posts_more w w''"
  by (auto simp: posts_more_def)

lemma posts_more_notifyParent: "posts_more w (notifyParent e d w)"
  by (simp add: posts_more_def notifyParent_def irc_event_post_def)

lemma posts_more_console_log: "posts_more w (console_log args w)"
proof -
  have "posts_more w (patched_log args w)"
    using posts_more_notifyParent[of w]
    by (simp add: patched_log_def Let_def posts_more_def)
  then show ?thesis
    by (simp add: console_log_def posts_more_refl)
qed

lemma posted_set_timer: "posted (snd (set_timer r cb n w)) = posted w"
  by (simp add: set_timer_def)

lemma posted_clearInterval: "posted (clearInterval i w) = posted w"
  by (simp add: clearInterval_def)

lemma posts_more_handleIrcLogin: "posts_more w (handleIrcLogin obj w)"
proof -
  let ?w0 = "w\<lparr>calls := calls w @ [HandleIrcLogin obj]\<rparr>"
  have "posts_more ?w0 (console_log [AStr ''Attempting IRC login for user:'', AVal (m_nick obj)] ?w0)"
    by (rule posts_more_console_log)
  then show ?thesis
    by (simp add: handleIrcLogin_def Let_def setInterval_def setTimeout_def split_def
        posted_set_timer posts_more_def)
qed

lemma posts_more_handleThemeChange: "posts_more w (handleThemeChange obj w)"
proof -
  let ?w0 = "w\<lparr>calls := calls w @ [HandleThemeChange obj]\<rparr>"
  have "posts_more ?w0 (console_log [AStr ''Applying theme:'', AVal (m_theme obj)] ?w0)"
    by (rule posts_more_console_log)
  then show ?thesis
    by (simp add: handleThemeChange_def Let_def posts_more_def)
qed

lemma posts_more_on_message: "posts_more w (on_message ev w)"
proof (cases "origin ev \<in> set allowedOrigins")
  case False
  then show ?thesis by (simp add: on_message_def console_warn_def posts_more_refl)
next
  case True
  let ?w1 = "console_log [AStr ''Received message from parent:'', AData (data ev)] w"
  have 1: "posts_more w ?w1" by (rule posts_more_console_log)
  have "posts_more ?w1 (on_message ev w)"
    using True
    by (cases "data ev")
       (simp_all add: on_message_def Let_def posts_more_refl posts_more_handleIrcLogin
          posts_more_handleThemeChange)
  with 1 show ?thesis by (rule posts_more_trans)
qed

lemma posts_more_run_callback: "posted w0 = posted w \<Longrightarrow> posts_more w (run_callback i cb w0)"
proof (cases cb)
  case (WaitForForm n p r)
  assume "posted w0 = posted w"
  then show ?thesis using WaitForForm
    by (simp add: wait_for_form_tick_def Let_def split_def setTimeout_def posted_set_timer
        posted_clearInterval posts_more_refl)
next
  case (ClearWait j)
  assume "posted w0 = posted w"
  then show ?thesis using ClearWait by (simp add: posted_clearInterval posts_more_refl)
next
  case SubmitForm
  assume a: "posted w0 = posted w"
  have "posts_more w0 (console_log [AStr ''Submitting IRC connection form''] w0)"
    by (rule posts_more_console_log)
  then show ?thesis using SubmitForm a by (simp add: submit_form_def Let_def posts_more_def)
next
  case SendReady
  assume a: "posted w0 = posted w"
  have "posts_more w0 (send_ready w0)"
    unfolding send_ready_def by (rule posts_more_notifyParent)
  then show ?thesis using SendReady a by (simp add: posts_more_def)
qed

lemma posts_more_step: "posts_more w (step w e)"
proof (cases e)
  case (Message ev)
  then show ?thesis by (simp add: posts_more_on_message posts_more_refl)
next
  case (TimerFires i)
  then show ?thesis
    by (simp add: posts_more_run_callback posts_more_refl split: option.split)
next
  case DOMContentLoaded
  then show ?thesis by (simp add: Let_def setupConnectionMonitoring_def posts_more_refl)
next
  case (PageLogs args)
  then show ?thesis by (simp add: posts_more_console_log)
next
  case (PageRenders d)
  then show ?thesis by (simp add: posts_more_refl)
qed

lemma posts_more_run: "posts_more w (run w es)"
proof (induction es arbitrary: w)
  case Nil
  show ?case by (simp add: posts_more_refl)
next
  case (Cons e es)
  have "posts_more w (step w e)" by (rule posts_more_step)
  moreover have "posts_more (step w e) (run (step w e) es)" by (rule Cons.IH)
  ultimately show ?case by (simp add: posts_more_trans)
qed

lemma posts_more_load_script: "posts_more w (load_script w)"
proof (cases "self_is_top w")
  case True
  then show ?thesis by (simp add: load_script_def posts_more_refl)
next
  case False
  have "posts_more w (console_log [AStr ''CommonGround IRC integration loaded''] w)"
    by (rule posts_more_console_log)
  then show ?thesis using False
    by (simp add: load_script_def Let_def split_def setTimeout_def posted_set_timer
        setupConnectionMonitoring_def posts_more_def)
qed

text \<open>
  C10.  \<open>notifyParent\<close> posts exactly one message, of type \<open>irc-event\<close> with the given
  \<open>eventType\<close> and \<open>data\<close>, to the target origin \<open>'*'\<close> (or nothing, without a parent).  Every
  message the script posts while it is loaded and while it reacts to any sequence of events
  is such a message: the target origin is always \<open>'*'\<close>, never one of \<open>allowedOrigins\<close>.
\<close>

theorem posts_are_irc_events_to_any_origin:
  "posted (notifyParent eventType d w) =
     (if has_parent w
      then posted w @ [\<lparr>p_type = ''irc-event'', p_eventType = eventType, p_data = d,
                        p_targetOrigin = ''*''\<rparr>]
      else posted w)
   \<and> (\<exists>ps. posted (run (load_script w) es) = posted w @ ps
           \<and> (\<forall>p \<in> set ps. p_type p = ''irc-event'' \<and> p_targetOrigin p = ''*''
                  \<and> p_targetOrigin p \<notin> set allowedOrigins))"
proof -
  have "posts_more w (run (load_script w) es)"
    using posts_more_load_script posts_more_run by (rule posts_more_trans)
  then obtain ps where ps: "posted (run (load_script w) es) = posted w @ ps"
    and ok: "list_all irc_event_post ps"
    by (auto simp: posts_more_def)
  from ok have "\<forall>p \<in> set ps. p_type p = ''irc-event'' \<and> p_targetOrigin p = ''*''
                  \<and> p_targetOrigin p \<notin> set allowedOrigins"
    by (simp add: list_all_iff irc_event_post_def allowedOrigins_def)
  with ps show ?thesis
    by (auto simp: notifyParent_def)
qed

theorem posts_are_irc_events_to_any_origin_witness:
  "posted (run (load_script embedded_window)
            [TimerFires 0, PageLogs [AStr ''Connected to'', AStr ''commonground'']]) =
     [\<lparr>p_type = ''irc-event'', p_eventType = ''ready'',
       p_data = PReady ''https://chat.curia.network/'' ''Mozilla/5.0'', p_targetOrigin = ''*''\<rparr>,
      \<lparr>p_type = ''irc-event'', p_eventType = ''connected'',
       p_data = PMessage ''Connected to commonground'', p_targetOrigin = ''*''\<rparr>]
   \<and> (\<exists>ps. posted (run (load_script embedded_window)
                     [TimerFires 0, PageLogs [AStr ''Connected to'', AStr ''commonground'']]) =
              posted embedded_window @ ps
           \<and> (\<forall>p \<in> set ps. p_type p = ''irc-event'' \<and> p_targetOrigin p = ''*''
                  \<and> p_targetOrigin p \<notin> set allowedOrigins))"
proof -
  have "posted (run (load_script embedded_window)
            [TimerFires 0, PageLogs [AStr ''Connected to'', AStr ''commonground'']]) =
     [\<lparr>p_type = ''irc-event'', p_eventType = ''ready'',
       p_data = PReady ''https://chat.curia.network/'' ''Mozilla/5.0'', p_targetOrigin = ''*''\<rparr>,
      \<lparr>p_type = ''irc-event'', p_eventType = ''connected'',
       p_data = PMessage ''Connected to commonground'', p_targetOrigin = ''*''\<rparr>]"
    by (simp add: embedded_window_def empty_dom_def load_script_def console_log_def
        patched_log_def notifyParent_def setupConnectionMonitoring_def setTimeout_def
        set_timer_def send_ready_def Let_def)
  then show ?thesis
    using posts_are_irc_events_to_any_origin
      [of "''ready''" "PReady [] []" embedded_window
          "[TimerFires 0, PageLogs [AStr ''Connected to'', AStr ''commonground'']]"]
    by simp
qed

subsection \<open>The top-window guard\<close>

text \<open>
  C9.  Loaded in a top-level window (\<open>window.self === window.top\<close>) the script does
  nothing: the window is left exactly as it was, so no message listener is registered,
  \<open>console.log\<close> is not patched, no timer is set, the form is untouched and nothing is
  posted to a parent.
\<close>

theorem top_window_is_noop:
  assumes "self_is_top w"
  shows "load_script w = w"
  using assms by (simp add: load_script_def)

theorem top_window_is_noop_witness:
  "self_is_top (embedded_window\<lparr>self_is_top := True\<rparr>)
   \<and> load_script (embedded_window\<lparr>self_is_top := True\<rparr>) = embedded_window\<lparr>self_is_top := True\<rparr>
   \<and> load_script embedded_window \<noteq> embedded_window"
proof -
  have "self_is_top (embedded_window\<lparr>self_is_top := True\<rparr>)" by simp
  from top_window_is_noop[OF this]
  have "load_script (embedded_window\<lparr>self_is_top := True\<rparr>) = embedded_window\<lparr>self_is_top := True\<rparr>" .
  moreover have "message_listener (load_script embedded_window) \<noteq> message_listener embedded_window"
    by (simp add: embedded_window_def empty_dom_def load_script_def console_log_def
        setupConnectionMonitoring_def setTimeout_def set_timer_def Let_def)
  then have "load_script embedded_window \<noteq> embedded_window" by auto
  ultimately show ?thesis by simp
qed

subsection \<open>The origin check\<close>

text \<open>
  C1.  A message whose origin is not in \<open>allowedOrigins\<close> is ignored, whatever its data
  (also with \<open>type\<close> \<open>irc-login\<close>): the listener returns after one \<open>console.warn\<close>.  Neither
  \<open>handleIrcLogin\<close> nor \<open>handleThemeChange\<close> is called, the form fields and the submit count
  are unchanged, no timer is set and nothing is posted; the warning in the console is the
  only trace.
\<close>

theorem unauthorized_origin_is_ignored:
  assumes "origin ev \<notin> set allowedOrigins"
  shows "on_message ev w =
           w\<lparr>console := console w @
               [Warn [AStr ''Ignored message from unauthorized origin:'', AStr (origin ev)]]\<rparr>
         \<and> calls (on_message ev w) = calls w
         \<and> document (on_message ev w) = document w
         \<and> timers (on_message ev w) = timers w
         \<and> posted (on_message ev w) = posted w"
  using assms by (simp add: on_message_def console_warn_def)

theorem unauthorized_origin_is_ignored_witness:
  "origin evil_login \<notin> set allowedOrigins
   \<and> data evil_login = DObj login_alice
   \<and> m_type login_alice = JStr ''irc-login''
   \<and> calls (on_message evil_login (load_script embedded_window)) = []
   \<and> document (on_message evil_login (load_script embedded_window)) = document embedded_window
   \<and> calls (on_message (evil_login\<lparr>origin := ''https://curia.network''\<rparr>)
              (load_script embedded_window)) = [HandleIrcLogin login_alice]"
proof -
  have o: "origin evil_login \<notin> set allowedOrigins"
    by (simp add: evil_login_def allowedOrigins_def)
  have l: "calls (load_script embedded_window) = []"
       "document (load_script embedded_window) = document embedded_window"
       "log_patched (load_script embedded_window)"
    by (simp_all add: embedded_window_def empty_dom_def load_script_def console_log_def
        setupConnectionMonitoring_def setTimeout_def set_timer_def Let_def)
  have a: "calls (on_message (evil_login\<lparr>origin := ''https://curia.network''\<rparr>)
              (load_script embedded_window)) = [HandleIrcLogin login_alice]"
    using l
    by (simp add: on_message_def allowedOrigins_def evil_login_def login_alice_def
        handleIrcLogin_def console_log_def patched_log_def notifyParent_def
        setInterval_def setTimeout_def set_timer_def Let_def)
  show ?thesis
    using unauthorized_origin_is_ignored[OF o, of "load_script embedded_window"] o l a
    by (simp add: evil_login_def login_alice_def)
qed

section \<open>Properties of the provisioning endpoint\<close>

subsection \<open>The upsert\<close>

lemma find_filter_conv:
  "find P xs = (case filter P xs of [] \<Rightarrow> None | x # _ \<Rightarrow> Some x)"
  by (induction xs) auto

lemma find_map_same_key:
  assumes "\<And>u. P (f u) = P u"
  shows "find P (map f xs) = map_option f (find P xs)"
  using assms by (induction xs) auto

lemma password_after_update_by_id:
  assumes "find (\<lambda>u. u_username u = n) us = Some x"
  shows "map_option u_password
           (find (\<lambda>u. u_username u = n)
              (map (\<lambda>u. if u_id u = u_id x
                         then u\<lparr>u_password := h, u_nick := k, u_realname := r\<rparr> else u) us))
         = Some h"
proof -
  let ?f = "\<lambda>u. if u_id u = u_id x then u\<lparr>u_password := h, u_nick := k, u_realname := r\<rparr> else u"
  have "find (\<lambda>u. u_username u = n) (map ?f us) = map_option ?f (find (\<lambda>u. u_username u = n) us)"
    by (rule find_map_same_key) simp
  with assms show ?thesis by simp
qed

lemma password_after_update_by_username:
  assumes "find (\<lambda>u. u_username u = n) us = Some x"
  shows "map_option u_password
           (find (\<lambda>u. u_username u = n)
              (map (\<lambda>u. if u_username u = n
                         then u\<lparr>u_password := h, u_nick := k, u_realname := r\<rparr> else u) us))
         = Some h"
proof -
  let ?f = "\<lambda>u. if u_username u = n then u\<lparr>u_password := h, u_nick := k, u_realname := r\<rparr> else u"
  have "find (\<lambda>u. u_username u = n) (map ?f us) = map_option ?f (find (\<lambda>u. u_username u = n) us)"
    by (rule find_map_same_key) simp
  moreover from assms have "u_username x = n"
    by (auto simp: find_Some_iff)
  ultimately show ?thesis using assms by simp
qed

lemma usernames_after_update:
  "map u_username
     (map (\<lambda>u. if c u then u\<lparr>u_password := h, u_nick := k, u_realname := r\<rparr> else u) us)
   = map u_username us"
  by (induction us) auto

lemma find_appended_row:
  assumes "n \<notin> set (map u_username us)" and "u_username x = n"
  shows "find (\<lambda>u. u_username u = n) (us @ [x]) = Some x"
  using assms by (induction us) auto

lemma find_other_appended_row:
  assumes "u_username x \<noteq> n"
  shows "find (\<lambda>u. u_username u = n) (us @ [x]) = find (\<lambda>u. u_username u = n) us"
  using assms by (induction us) auto

lemma no_row_iff:
  "(filter (\<lambda>u. u_username u = n) us = []) = (n \<notin> set (map u_username us))"
  by (induction us) auto

lemma fits_varchar_literals:
  "fits_varchar ''commonground''" "fits_varchar ''irc+insecure://ergo:6667''"
  by (simp_all add: fits_varchar_def)

lemma upsertSojuUser_existing:
  assumes up: "db_up db" and ex: "up_ircUsername a \<in> set (map u_username (users db))"
    and fit: "fits_varchar (up_ircUsername a)" "fits_varchar (up_hashedPassword a)"
             "fits_varchar (up_nickname a)" "fits_varchar (up_realname a)"
  shows "\<exists>i db'. upsertSojuUser a db = (Inr (i, up_ircUsername a), db')
           \<and> db_up db'
           \<and> map u_username (users db') = map u_username (users db)
           \<and> stored_password (up_ircUsername a) db' = Some (up_hashedPassword a)"
proof -
  from ex obtain x rest
    where f: "filter (\<lambda>u. u_username u = up_ircUsername a) (users db) = x # rest"
    using no_row_iff[of "up_ircUsername a" "users db"]
    by (cases "filter (\<lambda>u. u_username u = up_ircUsername a) (users db)") auto
  then have fx: "find (\<lambda>u. u_username u = up_ircUsername a) (users db) = Some x"
    by (simp add: find_filter_conv)
  show ?thesis
    using up f fit password_after_update_by_id[OF fx]
    by (simp add: upsertSojuUser_def select_user_ids_def update_user_by_id_def
        upsert_network_def stored_password_def usernames_after_update fits_varchar_literals)
qed

lemma upsertSojuUser_new:
  assumes up: "db_up db" and ex: "up_ircUsername a \<notin> set (map u_username (users db))"
    and fit: "fits_varchar (up_ircUsername a)" "fits_varchar (up_hashedPassword a)"
             "fits_varchar (up_nickname a)" "fits_varchar (up_realname a)"
  shows "\<exists>db'. upsertSojuUser a db = (Inr (user_serial db, up_ircUsername a), db')
           \<and> db_up db'
           \<and> users db' =
               users db @
                 [\<lparr>u_id = user_serial db, u_username = up_ircUsername a,
                   u_password = up_hashedPassword a, u_nick = up_nickname a,
                   u_realname = up_realname a, u_admin = False, u_enabled = True\<rparr>]
           \<and> stored_password (up_ircUsername a) db' = Some (up_hashedPassword a)"
proof -
  have f: "filter (\<lambda>u. u_username u = up_ircUsername a) (users db) = []"
    using ex by (simp add: no_row_iff)
  show ?thesis
    using up f ex fit
    by (simp add: upsertSojuUser_def select_user_ids_def insert_user_def
        upsert_network_def stored_password_def find_appended_row fits_varchar_literals)
qed

lemma upsertSojuUser_down:
  assumes "\<not> db_up db"
  shows "upsertSojuUser a db = (Inl ConnectionError, db)"
  using assms by (simp add: upsertSojuUser_def select_user_ids_def)

text \<open>A value that does not fit its column makes the upsert fail although the database is up.\<close>

lemma upsertSojuUser_too_long:
  assumes up: "db_up db" and long: "\<not> fits_varchar (up_nickname a)"
  shows "\<exists>db'. upsertSojuUser a db = (Inl ValueTooLong, db') \<and> users db' = users db"
  using up long
  by (cases "filter (\<lambda>u. u_username u = up_ircUsername a) (users db)")
     (simp_all add: upsertSojuUser_def select_user_ids_def insert_user_def update_user_by_id_def)

subsection \<open>The handler of the endpoint specification\<close>

lemma length_generateIrcUsername: "length (generateIrcUsername n i) \<le> 32"
  by (simp add: generateIrcUsername_def Let_def)

lemma fits_derived_username: "fits_varchar (derived_username user)"
  using length_generateIrcUsername[of "or_else (name user) (sub user)" "sub user"]
  by (simp add: fits_varchar_def derived_username_def)

lemma fits_or_else_name:
  "fits_varchar (val_to_string (name user)) \<Longrightarrow>
   fits_varchar (or_else (name user) (derived_username user))"
  by (simp add: or_else_def fits_derived_username)

text \<open>
  The handler as one case distinction on the outcome of the upsert, for a request that
  passes its checks.
\<close>

lemma provisionIrcUserHandler_valid:
  assumes v: "valid_request req user"
  shows "\<exists>cid. provisionIrcUserHandler rt req srv =
      (case upsertSojuUser
              \<lparr>up_curiaUserId = sub user, up_ircUsername = derived_username user,
               up_hashedPassword =
                 bcrypt_hash rt (secret_at rt (random_calls srv)) (genSalt rt (salt_calls srv)),
               up_nickname = or_else (name user) (derived_username user),
               up_realname = or_else (name user) (derived_username user),
               up_communityId = cid\<rparr> (soju srv) of
         (Inl e, db') \<Rightarrow>
           (\<lparr>status = 500, body = JError ''Failed to provision IRC user''\<rparr>,
            srv\<lparr>random_calls := Suc (Suc (random_calls srv)), salt_calls := Suc (salt_calls srv),
                soju := db', error_log := error_log srv @ [''[IRC Provision] Error:'']\<rparr>)
       | (Inr ircUser, db') \<Rightarrow>
           (\<lparr>status = 200,
             body = JProvision (derived_username user) (secret_at rt (random_calls srv))
                      ''commonground''\<rparr>,
            srv\<lparr>random_calls := Suc (Suc (random_calls srv)), salt_calls := Suc (salt_calls srv),
                soju := db'\<rparr>))"
proof -
  from v obtain cid where u: "req_user req = Some user"
    and c: "req_body_communityId req = Some cid" and t: "truthy cid"
    by (auto simp: valid_request_def split: option.splits)
  show ?thesis
    using u c t
    by (intro exI[of _ "val_to_string cid"])
       (simp add: provisionIrcUserHandler_def generateSecurePassword_def hashIrcPassword_def
          derived_username_def secret_at_def Let_def split: prod.split sum.split)
qed

text \<open>
  With the database reachable and values that fit their columns, a valid request is
  answered with 200, the derived username and a freshly drawn secret; what is written to
  the \<open>password\<close> column is the bcrypt hash of that secret, on the update branch as on the
  create branch.  No row is added when the username exists, and existing rows of other
  usernames keep their password.
\<close>

lemma provisionIrcUserHandler_ok:
  assumes v: "valid_request req user" and up: "db_up (soju srv)"
    and nm: "fits_varchar (val_to_string (name user))"
    and hl: "fits_varchar (bcrypt_hash rt (secret_at rt (random_calls srv))
                             (genSalt rt (salt_calls srv)))"
  shows "\<exists>srv'. provisionIrcUserHandler rt req srv =
             (\<lparr>status = 200,
               body = JProvision (derived_username user) (secret_at rt (random_calls srv))
                        ''commonground''\<rparr>, srv')
           \<and> db_up (soju srv')
           \<and> random_calls srv' = Suc (Suc (random_calls srv))
           \<and> salt_calls srv' = Suc (salt_calls srv)
           \<and> stored_password (derived_username user) (soju srv') =
               Some (bcrypt_hash rt (secret_at rt (random_calls srv)) (genSalt rt (salt_calls srv)))
           \<and> map u_username (users (soju srv')) =
               (if derived_username user \<in> set (map u_username (users (soju srv)))
                then map u_username (users (soju srv))
                else map u_username (users (soju srv)) @ [derived_username user])
           \<and> (\<forall>n. n \<noteq> derived_username user \<longrightarrow>
                  derived_username user \<notin> set (map u_username (users (soju srv))) \<longrightarrow>
                  stored_password n (soju srv') = stored_password n (soju srv))"
proof -
  from provisionIrcUserHandler_valid[OF v, of rt srv] obtain cid where
    h: "provisionIrcUserHandler rt req srv =
      (case upsertSojuUser
              \<lparr>up_curiaUserId = sub user, up_ircUsername = derived_username user,
               up_hashedPassword =
                 bcrypt_hash rt (secret_at rt (random_calls srv)) (genSalt rt (salt_calls srv)),
               up_nickname = or_else (name user) (derived_username user),
               up_realname = or_else (name user) (derived_username user),
               up_communityId = cid\<rparr> (soju srv) of
         (Inl e, db') \<Rightarrow>
           (\<lparr>status = 500, body = JError ''Failed to provision IRC user''\<rparr>,
            srv\<lparr>random_calls := Suc (Suc (random_calls srv)), salt_calls := Suc (salt_calls srv),
                soju := db', error_log := error_log srv @ [''[IRC Provision] Error:'']\<rparr>)
       | (Inr ircUser, db') \<Rightarrow>
           (\<lparr>status = 200,
             body = JProvision (derived_username user) (secret_at rt (random_calls srv))
                      ''commonground''\<rparr>,
            srv\<lparr>random_calls := Suc (Suc (random_calls srv)), salt_calls := Suc (salt_calls srv),
                soju := db'\<rparr>))"
    by blast
  let ?a = "\<lparr>up_curiaUserId = sub user, up_ircUsername = derived_username user,
             up_hashedPassword =
               bcrypt_hash rt (secret_at rt (random_calls srv)) (genSalt rt (salt_calls srv)),
             up_nickname = or_else (name user) (derived_username user),
             up_realname = or_else (name user) (derived_username user),
             up_communityId = cid\<rparr>"
  have fit: "fits_varchar (up_ircUsername ?a)" "fits_varchar (up_hashedPassword ?a)"
            "fits_varchar (up_nickname ?a)" "fits_varchar (up_realname ?a)"
    using nm hl by (simp_all add: fits_derived_username fits_or_else_name)
  show ?thesis
  proof (cases "derived_username user \<in> set (map u_username (users (soju srv)))")
    case True
    then have ex: "up_ircUsername ?a \<in> set (map u_username (users (soju srv)))" by simp
    from upsertSojuUser_existing[OF up ex fit]
    obtain i db' where "upsertSojuUser ?a (soju srv) = (Inr (i, derived_username user), db')"
      and "db_up db'" and "map u_username (users db') = map u_username (users (soju srv))"
      and "stored_password (derived_username user) db' =
             Some (bcrypt_hash rt (secret_at rt (random_calls srv)) (genSalt rt (salt_calls srv)))"
      by auto
    with True show ?thesis by (simp add: h)
  next
    case False
    then have ex: "up_ircUsername ?a \<notin> set (map u_username (users (soju srv)))" by simp
    from upsertSojuUser_new[OF up ex fit]
    obtain db' where r: "upsertSojuUser ?a (soju srv) = (Inr (user_serial (soju srv), derived_username user), db')"
      and u: "db_up db'"
      and us: "users db' =
               users (soju srv) @
                 [\<lparr>u_id = user_serial (soju srv), u_username = derived_username user,
                   u_password = up_hashedPassword ?a, u_nick = up_nickname ?a,
                   u_realname = up_realname ?a, u_admin = False, u_enabled = True\<rparr>]"
      and sp: "stored_password (derived_username user) db' =
             Some (bcrypt_hash rt (secret_at rt (random_calls srv)) (genSalt rt (salt_calls srv)))"
      by auto
    have others: "\<forall>n. n \<noteq> derived_username user \<longrightarrow>
                    stored_password n db' = stored_password n (soju srv)"
      using us by (simp add: stored_password_def find_other_appended_row)
    show ?thesis
      using False r u us sp others by (simp add: h)
  qed
qed

lemma provisionIrcUserHandler_down:
  assumes v: "valid_request req user" and down: "\<not> db_up (soju srv)"
  shows "fst (provisionIrcUserHandler rt req srv) =
           \<lparr>status = 500, body = JError ''Failed to provision IRC user''\<rparr>
         \<and> soju (snd (provisionIrcUserHandler rt req srv)) = soju srv"
proof -
  from provisionIrcUserHandler_valid[OF v, of rt srv] obtain cid where
    h: "provisionIrcUserHandler rt req srv =
      (case upsertSojuUser
              \<lparr>up_curiaUserId = sub user, up_ircUsername = derived_username user,
               up_hashedPassword =
                 bcrypt_hash rt (secret_at rt (random_calls srv)) (genSalt rt (salt_calls srv)),
               up_nickname = or_else (name user) (derived_username user),
               up_realname = or_else (name user) (derived_username user),
               up_communityId = cid\<rparr> (soju srv) of
         (Inl e, db') \<Rightarrow>
           (\<lparr>status = 500, body = JError ''Failed to provision IRC user''\<rparr>,
            srv\<lparr>random_calls := Suc (Suc (random_calls srv)), salt_calls := Suc (salt_calls srv),
                soju := db', error_log := error_log srv @ [''[IRC Provision] Error:'']\<rparr>)
       | (Inr ircUser, db') \<Rightarrow>
           (\<lparr>status = 200,
             body = JProvision (derived_username user) (secret_at rt (random_calls srv))
                      ''commonground''\<rparr>,
            srv\<lparr>random_calls := Suc (Suc (random_calls srv)), salt_calls := Suc (salt_calls srv),
                soju := db'\<rparr>))"
    by blast
  show ?thesis
    using down by (simp add: h upsertSojuUser_down)
qed

text \<open>
  A display name of more than 255 characters is answered with 500 although the request
  is valid and the database is up: the \<open>nick\<close> column cannot take it.
\<close>

lemma provisionIrcUserHandler_name_too_long:
  assumes v: "valid_request req user" and up: "db_up (soju srv)"
    and long: "\<not> fits_varchar (val_to_string (name user))"
  shows "fst (provisionIrcUserHandler rt req srv) =
           \<lparr>status = 500, body = JError ''Failed to provision IRC user''\<rparr>
         \<and> users (soju (snd (provisionIrcUserHandler rt req srv))) = users (soju srv)"
proof -
  from provisionIrcUserHandler_valid[OF v, of rt srv] obtain cid where
    h: "provisionIrcUserHandler rt req srv =
      (case upsertSojuUser
              \<lparr>up_curiaUserId = sub user, up_ircUsername = derived_username user,
               up_hashedPassword =
                 bcrypt_hash rt (secret_at rt (random_calls srv)) (genSalt rt (salt_calls srv)),
               up_nickname = or_else (name user) (derived_username user),
               up_realname = or_else (name user) (derived_username user),
               up_communityId = cid\<rparr> (soju srv) of
         (Inl e, db') \<Rightarrow>
           (\<lparr>status = 500, body = JError ''Failed to provision IRC user''\<rparr>,
            srv\<lparr>random_calls := Suc (Suc (random_calls srv)), salt_calls := Suc (salt_calls srv),
                soju := db', error_log := error_log srv @ [''[IRC Provision] Error:'']\<rparr>)
       | (Inr ircUser, db') \<Rightarrow>
           (\<lparr>status = 200,
             body = JProvision (derived_username user) (secret_at rt (random_calls srv))
                      ''commonground''\<rparr>,
            srv\<lparr>random_calls := Suc (Suc (random_calls srv)), salt_calls := Suc (salt_calls srv),
                soju := db'\<rparr>))"
    by blast
  let ?a = "\<lparr>up_curiaUserId = sub user, up_ircUsername = derived_username user,
             up_hashedPassword =
               bcrypt_hash rt (secret_at rt (random_calls srv)) (genSalt rt (salt_calls srv)),
             up_nickname = or_else (name user) (derived_username user),
             up_realname = or_else (name user) (derived_username user),
             up_communityId = cid\<rparr>"
  from long have "truthy (name user)"
    by (cases "name user") (auto simp: fits_varchar_def)
  with long have "\<not> fits_varchar (up_nickname ?a)"
    by (simp add: or_else_def)
  from upsertSojuUser_too_long[OF up this]
  obtain db' where "upsertSojuUser ?a (soju srv) = (Inl ValueTooLong, db')"
    and "users db' = users (soju srv)"
    by blast
  then show ?thesis by (simp add: h)
qed


subsection \<open>Unauthenticated callers\<close>

text \<open>
  C6.  A request without an authenticated caller (\<open>req.user\<close>, respectively the session,
  is absent) is answered with 401 by both drafts of the provisioning endpoint, and the
  server state (database, random draws, log) is exactly what it was: nothing is
  provisioned.
\<close>

theorem unauthenticated_is_401_without_effect:
  assumes "req_user req = None"
  shows "provisionIrcUserHandler rt req srv =
           (\<lparr>status = 401, body = JError ''User not found''\<rparr>, srv)
         \<and> POST rt req srv = (\<lparr>status = 401, body = JError ''Unauthorized''\<rparr>, srv)"
  using assms by (simp add: provisionIrcUserHandler_def POST_def)

theorem unauthenticated_is_401_without_effect_witness:
  "req_user req_anonymous = None
   \<and> provisionIrcUserHandler rt_fresh req_anonymous srv_bob =
       (\<lparr>status = 401, body = JError ''User not found''\<rparr>, srv_bob)
   \<and> POST rt_fresh req_anonymous srv_bob =
       (\<lparr>status = 401, body = JError ''Unauthorized''\<rparr>, srv_bob)
   \<and> status (fst (provisionIrcUserHandler rt_fresh req_bob srv_bob)) = 200"
proof -
  have a: "req_user req_anonymous = None" by (simp add: req_anonymous_def)
  have b: "status (fst (provisionIrcUserHandler rt_fresh req_bob srv_bob)) = 200"
    by code_simp
  show ?thesis
    using unauthenticated_is_401_without_effect[OF a, of rt_fresh srv_bob] a b by simp
qed

subsection \<open>Provisioning twice\<close>







subsection \<open>What is written to the password column\<close>

text \<open>
  The auth-bridge draft: whenever \<open>POST\<close> answers a request with a session, a name and a
  parsable body, in a process whose \<open>Client\<close> is still unused, with the database reachable
  and values that fit their columns, the \<open>password\<close> column of the row holds the secret
  itself.
\<close>

lemma upsertSojuUser_irc_db_password:
  assumes up: "db_up db"
    and fit: "fits_varchar (a_ircUsername a)" "fits_varchar (a_ircPassword a)"
             "fits_varchar (a_nickname a)" "fits_varchar (a_realname a)"
  shows "\<exists>i db'. upsertSojuUser_irc_db a (False, db) = (Inr i, True, db')
           \<and> stored_password (a_ircUsername a) db' = Some (a_ircPassword a)"
proof (cases "a_ircUsername a \<in> set (map u_username (users db))")
  case True
  then obtain x rest
    where f: "filter (\<lambda>u. u_username u = a_ircUsername a) (users db) = x # rest"
    using no_row_iff[of "a_ircUsername a" "users db"]
    by (cases "filter (\<lambda>u. u_username u = a_ircUsername a) (users db)") auto
  then have fx: "find (\<lambda>u. u_username u = a_ircUsername a) (users db) = Some x"
    by (simp add: find_filter_conv)
  show ?thesis
    using up f fit password_after_update_by_username[OF fx]
    by (simp add: upsertSojuUser_irc_db_def select_user_ids_def update_user_by_username_def
        stored_password_def)
next
  case False
  then have f: "filter (\<lambda>u. u_username u = a_ircUsername a) (users db) = []"
    by (simp add: no_row_iff)
  show ?thesis
    using up f False fit
    by (simp add: upsertSojuUser_irc_db_def select_user_ids_def insert_user_def
        insert_network_if_absent_def stored_password_def find_appended_row
        fits_varchar_literals)
qed

lemma POST_password_column:
  assumes u: "req_user req = Some session" and n: "name session = JStr session_name"
    and c: "req_body_communityId req = Some cid"
    and fresh: "\<not> ircDb_used srv" and up: "db_up (soju srv)"
    and fit: "fits_varchar session_name" "fits_varchar (secret_at rt (random_calls srv))"
  shows "\<exists>srv'. POST rt req srv =
             (\<lparr>status = 200,
               body = JProvision (generateIrcUsername session_name (sub session))
                        (secret_at rt (random_calls srv)) ''commonground''\<rparr>, srv')
           \<and> stored_password (generateIrcUsername session_name (sub session)) (soju srv') =
               Some (secret_at rt (random_calls srv))"
proof -
  let ?a = "\<lparr>a_curiaUserId = sub session,
             a_ircUsername = generateIrcUsername session_name (sub session),
             a_ircPassword = secret_at rt (random_calls srv), a_nickname = session_name,
             a_realname = session_name, a_communityId = val_to_string cid\<rparr>"
  have fu: "fits_varchar (generateIrcUsername session_name (sub session))"
    using length_generateIrcUsername[of session_name "sub session"]
    by (simp add: fits_varchar_def)
  from upsertSojuUser_irc_db_password[OF up, of ?a] fit fu
  obtain i db' where r: "upsertSojuUser_irc_db ?a (False, soju srv) = (Inr i, True, db')"
    and s: "stored_password (generateIrcUsername session_name (sub session)) db' =
              Some (secret_at rt (random_calls srv))"
    by auto
  show ?thesis
    using u n c fresh r s
    by (simp add: POST_def generateSecurePassword_def secret_at_def Let_def)
qed

text \<open>
  A second \<open>POST\<close> in the same process does not reach the database: the \<open>Client\<close> was
  connected and ended by the first one, the handler answers 500, and the plaintext of the
  first call stays in the column.
\<close>

lemma POST_again_in_same_process:
  "fst (POST rt_fresh req_bob srv_posted) =
     \<lparr>status = 500, body = JError ''Provisioning failed''\<rparr>
   \<and> stored_password ''bob_0001'' (soju (snd (POST rt_fresh req_bob srv_posted))) =
       Some ''k3j2h0k3j2h1''"
  by code_simp

text \<open>
  C7 on the auth-bridge draft (\<open>POST\<close> with \<open>lib/irc-db.ts\<close>): the value written to
  \<open>User.password\<close> is the plaintext secret returned to the caller, on the create branch
  (the first request, on an empty table) and on the update branch (the request of a new
  process on the table the first one left); \<open>POST_password_column\<close> is the same for every
  input.  The endpoint specification's handler hashes first
  (\<open>provisionIrcUserHandler_ok\<close>).
\<close>

theorem POST_stores_plaintext:
  "fst (POST rt_fresh req_bob srv0) =
     \<lparr>status = 200, body = JProvision ''bob_0001'' ''k3j2h0k3j2h1'' ''commonground''\<rparr>
   \<and> stored_password ''bob_0001'' (soju (snd (POST rt_fresh req_bob srv0))) =
       Some ''k3j2h0k3j2h1''
   \<and> users (soju srv_restarted) = users (soju (snd (POST rt_fresh req_bob srv0)))
   \<and> fst (POST rt_fresh req_bob srv_restarted) =
     \<lparr>status = 200, body = JProvision ''bob_0001'' ''k3j2h2k3j2h3'' ''commonground''\<rparr>
   \<and> stored_password ''bob_0001'' (soju (snd (POST rt_fresh req_bob srv_restarted))) =
       Some ''k3j2h2k3j2h3''"
  by code_simp

subsection \<open>Username collisions\<close>

text \<open>
  For every valid request whose derived username is already in the \<open>User\<close> table (with
  the database reachable and values that fit their columns) the handler answers 200 with
  that username after one password generation, adds no row, and replaces the password of
  the existing row.
\<close>

lemma provisionIrcUserHandler_collision:
  assumes v: "valid_request req user" and up: "db_up (soju srv)"
    and nm: "fits_varchar (val_to_string (name user))"
    and hl: "fits_varchar (bcrypt_hash rt (secret_at rt (random_calls srv))
                             (genSalt rt (salt_calls srv)))"
    and col: "derived_username user \<in> set (map u_username (users (soju srv)))"
  shows "\<exists>srv'. provisionIrcUserHandler rt req srv =
             (\<lparr>status = 200,
               body = JProvision (derived_username user) (secret_at rt (random_calls srv))
                        ''commonground''\<rparr>, srv')
           \<and> random_calls srv' = Suc (Suc (random_calls srv))
           \<and> map u_username (users (soju srv')) = map u_username (users (soju srv))
           \<and> stored_password (derived_username user) (soju srv') =
               Some (bcrypt_hash rt (secret_at rt (random_calls srv))
                       (genSalt rt (salt_calls srv)))"
  using provisionIrcUserHandler_ok[OF v up nm hl] col by auto

text \<open>
  C8.  On a collision of derived usernames the code neither retries with a new suffix nor
  fails.  \<open>bob2\<close> is a different caller (another \<open>sub\<close>) whose derived username is the one
  \<open>bob\<close> already has; provisioning \<open>bob2\<close> draws one password, answers 200 with that very
  username, and overwrites the password, nick and realname of the row of \<open>bob\<close>.
\<close>

theorem collision_overwrites_other_caller:
  "sub bob2 \<noteq> sub bob
   \<and> users (soju srv_bob) =
       [\<lparr>u_id = 1, u_username = ''bob_0001'',
         u_password = ''$2a$10$.....................0k3j2h0k3j2h1'',
         u_nick = ''Bob'', u_realname = ''Bob'', u_admin = False, u_enabled = True\<rparr>]
   \<and> derived_username bob2 = ''bob_0001''
   \<and> fst (provisionIrcUserHandler rt_fresh req_bob2 srv_bob) =
       \<lparr>status = 200, body = JProvision ''bob_0001'' ''k3j2h2k3j2h3'' ''commonground''\<rparr>
   \<and> random_calls (snd (provisionIrcUserHandler rt_fresh req_bob2 srv_bob)) =
       random_calls srv_bob + 2
   \<and> users (soju (snd (provisionIrcUserHandler rt_fresh req_bob2 srv_bob))) =
       [\<lparr>u_id = 1, u_username = ''bob_0001'',
         u_password = ''$2a$10$.....................1k3j2h2k3j2h3'',
         u_nick = ''B.O.B'', u_realname = ''B.O.B'', u_admin = False, u_enabled = True\<rparr>]"
  by code_simp


section \<open>Properties of the auth callback endpoint\<close>

text \<open>
  C4.  For every username, secret and table, \<open>/api/irc-auth\<close> answers 200 exactly when a
  row with that username exists and \<open>verifyPassword\<close> accepts the secret against the hash
  stored in it, and answers 403 in every other case.  (The bodies are \<open>{success: true}\<close>,
  \<open>{error: 'User not found'}\<close> and \<open>{error: 'Invalid password'}\<close>; the bouncer reads the
  status.)
\<close>

theorem irc_auth_status:
  "status (fst (irc_auth_handler rt now username password tbl)) =
     (if (\<exists>u. findIrcUserByUsername username tbl = Some u
              \<and> verifyPassword rt password (ircPasswordHash u))
      then 200 else 403)"
  by (simp add: irc_auth_handler_def split: option.split)

theorem irc_auth_status_witness:
  "status (fst (irc_auth_handler rt_fresh 7 ''bob_0001'' ''k3j2h0k3j2h1'' irc_users0)) = 200
   \<and> status (fst (irc_auth_handler rt_fresh 7 ''bob_0001'' ''wrong'' irc_users0)) = 403
   \<and> status (fst (irc_auth_handler rt_fresh 7 ''nobody'' ''k3j2h0k3j2h1'' irc_users0)) = 403"
proof -
  have f: "findIrcUserByUsername ''bob_0001'' irc_users0 = Some (hd irc_users0)"
          "findIrcUserByUsername ''nobody'' irc_users0 = None"
    by (simp_all add: findIrcUserByUsername_def irc_users0_def)
  have v: "verifyPassword rt_fresh ''k3j2h0k3j2h1'' (ircPasswordHash (hd irc_users0))"
          "\<not> verifyPassword rt_fresh ''wrong'' (ircPasswordHash (hd irc_users0))"
    by (simp_all add: rt_fresh_def toy_verifyPassword_def irc_users0_def)
  show ?thesis
    using irc_auth_status[of rt_fresh 7 "''bob_0001''" "''k3j2h0k3j2h1''" irc_users0]
      irc_auth_status[of rt_fresh 7 "''bob_0001''" "''wrong''" irc_users0]
      irc_auth_status[of rt_fresh 7 "''nobody''" "''k3j2h0k3j2h1''" irc_users0]
      f v
    by simp
qed

text \<open>
  C5, as stated, fails: for an unknown username the handler returns right after the
  lookup and never calls \<open>verifyPassword\<close>; there is no dummy hash.  The calls made for an
  unknown user and for a known user with a wrong secret differ, and so do the bodies.
\<close>

theorem unknown_user_skips_verifyPassword_counterexample:
  "irc_auth_handler rt_fresh 7 ''nobody'' ''wrong'' irc_users0 =
     (\<lparr>status = 403, body = JError ''User not found''\<rparr>, irc_users0,
      [FindIrcUserByUsername ''nobody''])
   \<and> irc_auth_handler rt_fresh 7 ''bob_0001'' ''wrong'' irc_users0 =
     (\<lparr>status = 403, body = JError ''Invalid password''\<rparr>, irc_users0,
      [FindIrcUserByUsername ''bob_0001'',
       VerifyPassword ''wrong'' ''$2a$10$.....................0k3j2h0k3j2h1''])"
  by (simp add: irc_auth_handler_def findIrcUserByUsername_def irc_users0_def rt_fresh_def
      toy_verifyPassword_def)

text \<open>
  C5, amended.  Both failure cases answer 403 and leave the table unchanged, but on
  different paths: for an unknown username the handler makes the lookup only and answers
  \<open>User not found\<close>; for a known username with a wrong secret it makes the lookup and one
  \<open>verifyPassword\<close> call on the stored hash and answers \<open>Invalid password\<close>.
\<close>

theorem auth_failure_paths:
  "(findIrcUserByUsername username tbl = None \<longrightarrow>
      irc_auth_handler rt now username password tbl =
        (\<lparr>status = 403, body = JError ''User not found''\<rparr>, tbl,
         [FindIrcUserByUsername username]))
   \<and> (\<forall>u. findIrcUserByUsername username tbl = Some u
            \<and> \<not> verifyPassword rt password (ircPasswordHash u) \<longrightarrow>
      irc_auth_handler rt now username password tbl =
        (\<lparr>status = 403, body = JError ''Invalid password''\<rparr>, tbl,
         [FindIrcUserByUsername username, VerifyPassword password (ircPasswordHash u)]))"
  by (simp add: irc_auth_handler_def)

theorem auth_failure_paths_witness:
  "findIrcUserByUsername ''nobody'' irc_users0 = None
   \<and> irc_auth_handler rt_fresh 7 ''nobody'' ''wrong'' irc_users0 =
        (\<lparr>status = 403, body = JError ''User not found''\<rparr>, irc_users0,
         [FindIrcUserByUsername ''nobody''])
   \<and> findIrcUserByUsername ''bob_0001'' irc_users0 = Some (hd irc_users0)
   \<and> \<not> verifyPassword rt_fresh ''wrong'' (ircPasswordHash (hd irc_users0))
   \<and> irc_auth_handler rt_fresh 7 ''bob_0001'' ''wrong'' irc_users0 =
        (\<lparr>status = 403, body = JError ''Invalid password''\<rparr>, irc_users0,
         [FindIrcUserByUsername ''bob_0001'',
          VerifyPassword ''wrong'' (ircPasswordHash (hd irc_users0))])"
proof -
  have f: "findIrcUserByUsername ''nobody'' irc_users0 = None"
          "findIrcUserByUsername ''bob_0001'' irc_users0 = Some (hd irc_users0)"
    by (simp_all add: findIrcUserByUsername_def irc_users0_def)
  have v: "\<not> verifyPassword rt_fresh ''wrong'' (ircPasswordHash (hd irc_users0))"
    by (simp add: rt_fresh_def toy_verifyPassword_def irc_users0_def)
  show ?thesis
    using auth_failure_paths[of "''nobody''" irc_users0 rt_fresh 7 "''wrong''"]
      auth_failure_paths[of "''bob_0001''" irc_users0 rt_fresh 7 "''wrong''"]
      f v
    by simp
qed

section \<open>Properties of the redirect builders\<close>

text \<open>
  C2, as stated, fails.  \<open>buildChatUrl\<close>, the builder that takes the five fields, joins the
  channel names as they are given: for \<open>channels = ["general"]\<close> the URL has
  \<open>join=general\<close> and no \<open>join=%23general\<close>.  \<open>buildLoungeUrl\<close> does write \<open>join=%23general\<close>,
  but it takes only a username, a password and a community id, and uses the username for
  \<open>nick\<close> and \<open>realname\<close>: the nickname and the real name of the example are not in its URL.
\<close>

theorem redirect_url_counterexample:
  "buildChatUrl (Some chat_base) alice_params =
     Some ''http://localhost:9000/?autologin=&user=alice_42&al-password=s3cr3t&autoconnect=&nick=alice&username=alice_42&realname=Alice+A.&join=general&nofocus=&lockchannel=''
   \<and> \<not> str_includes
         ''http://localhost:9000/?autologin=&user=alice_42&al-password=s3cr3t&autoconnect=&nick=alice&username=alice_42&realname=Alice+A.&join=general&nofocus=&lockchannel=''
         ''join=%23general''
   \<and> buildLoungeUrl ''alice_42'' ''s3cr3t'' ''general'' =
     ''http://localhost:9000?autologin&user=alice_42&al-password=s3cr3t&autoconnect&nick=alice_42&username=alice_42/commonground&realname=alice_42&join=%23general&lockchannel&nofocus''
   \<and> \<not> str_includes
         ''http://localhost:9000?autologin&user=alice_42&al-password=s3cr3t&autoconnect&nick=alice_42&username=alice_42/commonground&realname=alice_42&join=%23general&lockchannel&nofocus''
         ''Alice''"
  by code_simp

text \<open>
  C2, amended.  On the example input and a base URL without query parameters,
  \<open>buildChatUrl\<close> returns the base followed by the query
  \<open>autologin=&user=alice_42&al-password=s3cr3t&autoconnect=&nick=alice&username=alice_42&realname=Alice+A.&join=general&nofocus=&lockchannel=\<close>
  (and the base's fragment): the flags \<open>autologin\<close> and \<open>autoconnect\<close> with empty values,
  \<open>user=alice_42\<close>, \<open>al-password=s3cr3t\<close>, the channel as given (\<open>join=general\<close>), and every
  input value unchanged but for form-encoding (the space of the real name is \<open>+\<close>).
\<close>

theorem buildChatUrl_example:
  assumes "searchParams base = []"
  shows "buildChatUrl (Some base) alice_params =
     Some (before_query base
           @ ''?autologin=&user=alice_42&al-password=s3cr3t&autoconnect=&nick=alice&username=alice_42&realname=Alice+A.&join=general&nofocus=&lockchannel=''
           @ fragment base)"
  using assms
  by (simp add: buildChatUrl_def alice_params_def set_param_def url_toString_def
      serialize_params_def form_encode_def form_encode_char_def is_alnum_def Let_def)

theorem buildChatUrl_example_witness:
  "searchParams chat_base = []
   \<and> buildChatUrl (Some chat_base) alice_params =
     Some ''http://localhost:9000/?autologin=&user=alice_42&al-password=s3cr3t&autoconnect=&nick=alice&username=alice_42&realname=Alice+A.&join=general&nofocus=&lockchannel=''"
proof -
  have a: "searchParams chat_base = []" by (simp add: chat_base_def)
  show ?thesis
    using buildChatUrl_example[OF a] a by (simp add: chat_base_def)
qed

end
